theory Spec2Isabelle
  imports Complex_Main "HOL-Library.Sublist"
begin

section \<open>JavaScript strings\<close>

text \<open>
  A JavaScript string is a sequence of UTF-16 code units and \<open>length\<close> counts them. The
  model writes a text as a \<open>string\<close>, one \<open>char\<close> for each code unit, which covers the
  code units below 256. Console output is not modelled.
\<close>

text \<open>\<open>s.includes(sub)\<close>: \<open>sub\<close> occurs somewhere in \<open>s\<close> as a contiguous run.\<close>

fun js_includes :: "string \<Rightarrow> string \<Rightarrow> bool" where
  "js_includes [] sub = (sub = [])"
| "js_includes (c # cs) sub = (prefix sub (c # cs) \<or> js_includes cs sub)"

text \<open>\<open>s.indexOf(sub)\<close>: the first position where \<open>sub\<close> occurs, or \<open>-1\<close>.\<close>

fun indexOf :: "string \<Rightarrow> string \<Rightarrow> int" where
  "indexOf [] sub = (if sub = [] then 0 else -1)"
| "indexOf (c # cs) sub =
     (if prefix sub (c # cs) then 0
      else (let i = indexOf cs sub in if i < 0 then -1 else i + 1))"

text \<open>\<open>s.substring(i, j)\<close> with \<open>i \<le> j\<close>, and \<open>s.substring(i)\<close>; a negative index counts as 0.\<close>

definition substring :: "string \<Rightarrow> int \<Rightarrow> int \<Rightarrow> string" where
  "substring s i j = take (nat j - nat i) (drop (nat i) s)"

definition substring_from :: "string \<Rightarrow> int \<Rightarrow> string" where
  "substring_from s i = drop (nat i) s"

text \<open>Decimal digits, for numbers spliced into template strings.\<close>

definition digit :: "nat \<Rightarrow> char" where
  "digit d = ''0123456789'' ! (d mod 10)"

fun show_nat :: "nat \<Rightarrow> string" where
  "show_nat n = (if n < 10 then [digit n] else show_nat (n div 10) @ [digit n])"

definition pad2 :: "nat \<Rightarrow> string" where
  "pad2 n = [digit (n div 10), digit n]"

section \<open>Errors, results and the world the service runs in\<close>

datatype error_class = PlainError | TypeError | ReferenceError | ApiError

text \<open>
  An error object as the service reads it: its class, its \<open>code\<close> (absent on the errors the
  service throws itself) and its \<open>message\<close>.
\<close>

datatype js_error = JsError (err_class: error_class) (err_code: "int option") (err_message: string)

text \<open>
  What one call of \<open>client.v2.tweet(text)\<close> does: it resolves to a response whose
  \<open>data.id\<close> may be missing, or it throws an error object with a string message.
\<close>

datatype tweet_outcome = Response "string option" | Throws "int option" string

text \<open>
  A JSON file holding an array: absent, present with text that \<open>JSON.parse\<close> rejects, or
  present with an array. Reads of a present file and all writes succeed.
\<close>

datatype 'a json_file = Missing | Unparsable | Parsed "'a list"

definition file_entries :: "'a json_file \<Rightarrow> 'a list" where
  "file_entries f = (case f of Parsed xs \<Rightarrow> xs | _ \<Rightarrow> [])"

text \<open>FailedPost, one element of \<open>failed_tweets.json\<close>; a timestamp is the instant in epoch milliseconds.\<close>

record failed_tweet =
  ft_timestamp :: nat
  ft_text :: string
  ft_accountNumber :: nat

text \<open>One element of \<open>accounts\<close> in a history record, and the history record itself.\<close>

record account_record =
  ar_accountNumber :: nat
  ar_success :: bool
  ar_simulated :: bool
  ar_tweetId :: "string option"
  ar_tweetUrl :: "string option"
  ar_error :: "string option"

record tweet_record =
  tr_timestamp :: nat
  tr_text :: string
  tr_accounts :: "account_record list"

text \<open>
  The handle \<open>{client, accountNumber}\<close>. \<open>ref\<close> is the identity of the object (two handles
  are the same object exactly when their \<open>ref\<close> is the same); the four keys are what the
  \<open>TwitterApi\<close> client was built from.
\<close>

record handle =
  ref :: nat
  appKey :: string
  appSecret :: string
  accessToken :: string
  accessSecret :: string
  accountNumber :: nat

record twitter_config =
  retryDelay :: "nat option"
  maxRetries :: "nat option"

record config =
  twitterConfig :: "twitter_config option"
  simulationMode :: bool

text \<open>
  The value \<open>postTweetWithClient\<close> resolves to. \<open>response_id\<close> is \<open>response.data.id\<close>.
\<close>

record post_result =
  success :: bool
  simulated :: bool
  response_id :: "string option"
  pr_accountNumber :: nat
  tweetUrl :: "string option"
  error :: "js_error option"

text \<open>
  Everything outside the service that it reads or changes.
  \<^item> \<open>env_simulation\<close>: \<open>process.env.SIMULATION_MODE === 'true'\<close>.
  \<^item> \<open>publish k n text\<close>: what the \<open>k\<close>-th transport call of the run does, made for
    account \<open>n\<close> with \<open>text\<close>; \<open>calls\<close> lists the transport calls made so far.
  \<^item> \<open>clock k\<close>: the time in epoch milliseconds at the \<open>k\<close>-th reading of the system
    clock; \<open>clock_reads\<close> counts the readings.
  \<^item> \<open>sleeps\<close>: the durations in milliseconds of the calls of \<open>sleep\<close> so far.
  \<^item> \<open>jitter k d\<close>: \<open>Math.floor(d * randomFactor)\<close> for the \<open>k\<close>-th draw of
    \<open>Math.random()\<close> (the floating-point product is left to the environment);
    \<open>draws\<close> counts the draws, \<open>delay_calls\<close> lists the arguments of the calls of
    \<open>calculateSmartDelay\<close> so far.
  \<^item> the three files, and \<open>next_ref\<close>, the identity of the next object created.
\<close>

record world =
  env_simulation :: bool
  publish :: "nat \<Rightarrow> nat \<Rightarrow> string \<Rightarrow> tweet_outcome"
  calls :: "(nat \<times> string) list"
  clock :: "nat \<Rightarrow> nat"
  clock_reads :: nat
  sleeps :: "nat list"
  jitter :: "nat \<Rightarrow> nat \<Rightarrow> nat"
  draws :: nat
  delay_calls :: "(nat \<times> tweet_record list) list"
  failed_file :: "failed_tweet json_file"
  history_file :: "tweet_record json_file"
  accounts_file :: "string option"
  next_ref :: nat

definition sleep :: "nat \<Rightarrow> world \<Rightarrow> world" where
  "sleep ms w = w\<lparr>sleeps := sleeps w @ [ms]\<rparr>"

text \<open>\<open>Date.now()\<close>, and the instant of \<open>new Date()\<close>.\<close>

definition now :: "world \<Rightarrow> nat \<times> world" where
  "now w = (clock w (clock_reads w), w\<lparr>clock_reads := Suc (clock_reads w)\<rparr>)"

text \<open>
  \<open>new Date(t).toISOString().slice(11, 19)\<close>: the UTC time of day \<open>HH:MM:SS\<close>, for an
  instant up to the year 9999 (later years print with a longer year).
\<close>

definition iso_time :: "nat \<Rightarrow> string" where
  "iso_time t =
     (let s = (t div 1000) mod 86400
      in pad2 (s div 3600) @ '':'' @ pad2 ((s mod 3600) div 60) @ '':'' @ pad2 (s mod 60))"

section \<open>The Failure Queue: \<open>saveFailedTweet\<close>\<close>

definition saveFailedTweet :: "string \<Rightarrow> nat \<Rightarrow> world \<Rightarrow> world" where
  "saveFailedTweet tweetText accNo w =
     (let failedTweets = file_entries (failed_file w);
          (t, w1) = now w
      in w1\<lparr>failed_file := Parsed (failedTweets @
            [\<lparr>ft_timestamp = t, ft_text = tweetText, ft_accountNumber = accNo\<rparr>])\<rparr>)"

section \<open>The Posting State Machine: \<open>postTweetWithClient\<close>\<close>

text \<open>
  \<open>parseTwitterError\<close> builds the message that is logged: the explanation and the
  suggestion. A code of the table sets both; a phrase in the message overrides them.
\<close>

definition code_explanation :: "int \<Rightarrow> (string \<times> string) option" where
  "code_explanation c =
    (if c = 32 then Some (''Authentication error.'', ''Check your Twitter API credentials in accounts.txt.'')
     else if c = 88 then Some (''Rate limit exceeded.'', ''Wait a while before trying again or increase the delay between requests.'')
     else if c = 89 then Some (''Token invalid or expired.'', ''Regenerate your access token and update accounts.txt.'')
     else if c = 99 then Some (''Invalid or expired token.'', ''Regenerate your access token and update accounts.txt.'')
     else if c = 161 then Some (''You don't have permission to follow.'', ''Check if your app has the proper permissions.'')
     else if c = 179 then Some (''Not authorized to view this tweet or account.'', ''The account may be private or suspended.'')
     else if c = 187 then Some (''Duplicate tweet content.'', ''Modify the tweet text to make it unique.'')
     else if c = 215 then Some (''Bad authentication data.'', ''Verify your API credentials in accounts.txt.'')
     else if c = 226 then Some (''Tweet content appears automated.'', ''Make your tweet content more unique.'')
     else if c = 261 then Some (''Application is not permitted to perform this action.'', ''Verify your app has the necessary permissions.'')
     else if c = 326 then Some (''Account temporarily locked.'', ''Check your Twitter account for any security notices.'')
     else if c = 401 then Some (''Unauthorized access.'', ''Check your API credentials and account permissions.'')
     else if c = 403 then Some (''Forbidden - Access denied.'', ''Your app may lack write permissions. Check Twitter Developer Portal.'')
     else if c = 404 then Some (''Resource not found.'', ''Check if the tweet or user exists.'')
     else if c = 429 then Some (''Rate limit exceeded.'', ''You've hit the Twitter API rate limit. Wait a while before trying again.'')
     else None)"

definition parseTwitterError :: "js_error \<Rightarrow> nat \<Rightarrow> string \<times> string" where
  "parseTwitterError e accNo =
     (let errorMessage = err_message e;
          byCode = (case err_code e of
                      None \<Rightarrow> None
                    | Some c \<Rightarrow> if c = 0 then None else code_explanation c);
          (explanation, suggestion) =
            (case byCode of
               Some p \<Rightarrow> p
             | None \<Rightarrow> (''Twitter account #'' @ show_nat accNo @ '' encountered an error.'',
                        ''Please try again later.''))
      in if js_includes errorMessage ''authentication''
         then (''Authentication problem with Twitter.'', ''Check your Twitter API credentials and permissions.'')
         else if js_includes errorMessage ''permission''
         then (''Your app lacks the necessary permissions.'',
               ''In Twitter Developer Portal, check app permissions. Should be set to 'Read and Write'.'')
         else if js_includes errorMessage ''rate limit''
         then (''Rate limit reached.'', ''You've hit Twitter's API limits. Wait before trying again or reduce frequency.'')
         else (explanation, suggestion))"

text \<open>
  The body of the inner \<open>try\<close>: the two validations, then the transport call and the
  check of its response. \<open>Inl\<close> is the error thrown to the inner \<open>catch\<close>, \<open>Inr\<close> the
  identifier of the published tweet. The inner \<open>catch\<close> first logs the message of
  \<open>parseTwitterError\<close>, which reads a string message and does not throw.
\<close>

definition try_post :: "world \<Rightarrow> string \<Rightarrow> handle \<Rightarrow> (js_error + string) \<times> world" where
  "try_post w tweetText h =
     (if tweetText = [] then (Inl (JsError PlainError None ''Tweet text is empty''), w)
      else if length tweetText > 280
      then (Inl (JsError PlainError None ''Tweet text exceeds maximum length of 280 characters''), w)
      else
        (let w1 = w\<lparr>calls := calls w @ [(accountNumber h, tweetText)]\<rparr>
         in case publish w (length (calls w)) (accountNumber h) tweetText of
              Throws c m \<Rightarrow> (Inl (JsError ApiError c m), w1)
            | Response None \<Rightarrow> (Inl (JsError PlainError None ''Invalid response from Twitter API''), w1)
            | Response (Some i) \<Rightarrow>
                if i = [] then (Inl (JsError PlainError None ''Invalid response from Twitter API''), w1)
                else (Inr i, w1)))"

text \<open>
  The text of the retry after a duplicate-content error: the time of day goes in front of
  the first \<open>@giverep\<close>, or at the end when the text has none.
\<close>

definition uniqueTweet :: "string \<Rightarrow> string \<Rightarrow> string" where
  "uniqueTweet tweetText timestamp =
     (if js_includes tweetText ''@giverep''
      then (let tagIndex = indexOf tweetText ''@giverep''
            in substring tweetText 0 tagIndex @ ''['' @ timestamp @ ''] '' @ substring_from tweetText tagIndex)
      else tweetText @ '' ['' @ timestamp @ '']'')"

text \<open>
  The outer \<open>catch\<close> reads \<open>accountNumber\<close>, which is declared by \<open>const\<close> inside the
  \<open>try\<close> block and is not in scope in the handler (nor declared by the module): the
  handler itself throws, and the promise of the \<open>async\<close> function rejects.
\<close>

definition outer_catch :: "js_error" where
  "outer_catch = JsError ReferenceError None ''accountNumber is not defined''"

definition waitTime :: "config \<Rightarrow> nat" where
  "waitTime c =
     (case twitterConfig c of
        None \<Rightarrow> 300
      | Some tc \<Rightarrow> (case retryDelay tc of None \<Rightarrow> 300 | Some d \<Rightarrow> if d = 0 then 300 else d)) * 1000"

text \<open>
  \<open>process.env.SIMULATION_MODE === 'true' || config.simulationMode === true\<close>, where the
  config is an object or the environment variable already decides.
\<close>

definition simulating :: "world \<Rightarrow> config option \<Rightarrow> bool" where
  "simulating w cfg = (env_simulation w \<or> (case cfg of None \<Rightarrow> False | Some c \<Rightarrow> simulationMode c))"

text \<open>The three objects the function returns: simulated, posted, failed.\<close>

definition simulated_result :: "world \<Rightarrow> handle \<Rightarrow> (js_error + post_result) \<times> world" where
  "simulated_result w h =
     (Inr \<lparr>success = True, simulated = True,
           response_id = Some (''simulated-tweet-'' @ show_nat (fst (now w))),
           pr_accountNumber = accountNumber h, tweetUrl = None, error = None\<rparr>, snd (now w))"

definition posted_result :: "handle \<Rightarrow> string \<Rightarrow> post_result" where
  "posted_result h i =
     \<lparr>success = True, simulated = False, response_id = Some i, pr_accountNumber = accountNumber h,
      tweetUrl = Some (''https://twitter.com/i/status/'' @ i), error = None\<rparr>"

definition failed_result :: "handle \<Rightarrow> js_error \<Rightarrow> post_result" where
  "failed_result h e =
     \<lparr>success = False, simulated = False, response_id = None, pr_accountNumber = accountNumber h,
      tweetUrl = None, error = Some e\<rparr>"

text \<open>
  \<open>postTweetWithClient(tweetText, twitterClientObj, config, retryCount)\<close>. The handle and
  the config are \<open>None\<close> when the argument is \<open>undefined\<close> or \<open>null\<close>: then the
  destructuring of the handle, or the read of \<open>config.simulationMode\<close>, throws a
  \<open>TypeError\<close> to the outer \<open>catch\<close>. The first component of the result is what the
  promise settles to: \<open>Inr\<close> the value it resolves to, \<open>Inl\<close> the error it rejects
  with. The promise of a retry is returned as it is.
\<close>

function postTweetWithClient ::
  "world \<Rightarrow> string \<Rightarrow> handle option \<Rightarrow> config option \<Rightarrow> int \<Rightarrow> (js_error + post_result) \<times> world" where
  "postTweetWithClient w tweetText twitterClientObj cfg retryCount =
     (case twitterClientObj of
        None \<Rightarrow> (Inl outer_catch, w)
      | Some h \<Rightarrow>
          if simulating w cfg then simulated_result w h
          else
            (case cfg of
               None \<Rightarrow> (Inl outer_catch, w)
             | Some c \<Rightarrow>
                 (case try_post w tweetText h of
                    (Inr i, w1) \<Rightarrow> (Inr (posted_result h i), w1)
                  | (Inl twitterError, w1) \<Rightarrow>
                      if err_code twitterError = Some 429 \<and> retryCount > 0
                      then postTweetWithClient (sleep (waitTime c) w1) tweetText twitterClientObj cfg
                             (retryCount - 1)
                      else if err_code twitterError = Some 187 \<and> retryCount > 0
                      then postTweetWithClient (sleep 2000 (snd (now w1)))
                             (uniqueTweet tweetText (iso_time (fst (now w1))))
                             twitterClientObj cfg (retryCount - 1)
                      else (Inr (failed_result h twitterError),
                            saveFailedTweet tweetText (accountNumber h) w1))))"
  by pat_completeness auto
termination
  by (relation "measure (\<lambda>(w, tweetText, twitterClientObj, cfg, retryCount). nat retryCount)") auto

declare postTweetWithClient.simps [simp del]

section \<open>The History Store: \<open>getTweetHistory\<close>, \<open>saveTweetHistory\<close>\<close>

definition getTweetHistory :: "world \<Rightarrow> tweet_record list" where
  "getTweetHistory w = file_entries (history_file w)"

text \<open>\<open>xs.slice(-n)\<close>: the last \<open>n\<close> elements.\<close>

definition slice_last :: "nat \<Rightarrow> 'a list \<Rightarrow> 'a list" where
  "slice_last n xs = drop (length xs - n) xs"

text \<open>
  The callback of \<open>results.map\<close>: one result as the history keeps it. A simulated
  result without an identifier reads the clock for one.
\<close>

definition history_account :: "post_result \<Rightarrow> world \<Rightarrow> account_record \<times> world" where
  "history_account result w =
     (let (tweetId, w1) =
            (if success result \<or> simulated result
             then (case response_id result of
                     Some i \<Rightarrow>
                       if i \<noteq> [] then (Some i, w)
                       else if simulated result
                       then (Some (''simulated-'' @ show_nat (fst (now w))), snd (now w))
                       else (Some ''unknown'', w)
                   | None \<Rightarrow>
                       if simulated result
                       then (Some (''simulated-'' @ show_nat (fst (now w))), snd (now w))
                       else (Some ''unknown'', w))
             else (None, w));
          tweetUrl =
            (case tweetId of
               None \<Rightarrow> None
             | Some i \<Rightarrow>
                 if i \<noteq> [] \<and> i \<noteq> ''unknown'' \<and> \<not> js_includes i ''simulated''
                 then Some (''https://twitter.com/i/status/'' @ i) else None)
      in (\<lparr>ar_accountNumber = pr_accountNumber result, ar_success = success result,
           ar_simulated = simulated result, ar_tweetId = tweetId, ar_tweetUrl = tweetUrl,
           ar_error =
             (if success result then None
              else (case error result of
                      None \<Rightarrow> Some ''Unknown error''
                    | Some e \<Rightarrow>
                        if err_message e = [] then Some ''Unknown error'' else Some (err_message e)))\<rparr>,
          w1))"

fun history_accounts :: "post_result list \<Rightarrow> world \<Rightarrow> account_record list \<times> world" where
  "history_accounts [] w = ([], w)"
| "history_accounts (r # rs) w =
     (let (a, w1) = history_account r w;
          (as, w2) = history_accounts rs w1
      in (a # as, w2))"

text \<open>
  \<open>saveTweetHistory(tweetText, results)\<close>: the record is pushed at the end, the last 100
  are kept and written, and the written list is returned.
\<close>

definition saveTweetHistory :: "string \<Rightarrow> post_result list \<Rightarrow> world \<Rightarrow> tweet_record list \<times> world" where
  "saveTweetHistory tweetText results w =
     (let history = file_entries (history_file w);
          (t, w1) = now w;
          (accounts, w2) = history_accounts results w1;
          tweetRecord = \<lparr>tr_timestamp = t, tr_text = tweetText, tr_accounts = accounts\<rparr>;
          pushed = history @ [tweetRecord];
          kept = (if length pushed > 100 then drop (length pushed - 100) pushed else pushed)
      in (kept, w2\<lparr>history_file := Parsed kept\<rparr>))"

section \<open>The Adaptive Delay Calculator: \<open>calculateSmartDelay\<close>\<close>

text \<open>
  The delay before the random factor. \<open>failCount\<close> and \<open>totalCount\<close> are counted over
  the records of the last 20 that name the account, each by its first entry for the
  account. \<open>failRate\<close> is the quotient of two counts of at most 20, \<open>totalCount\<close> not
  zero: it is above the double \<open>0.5\<close>, or above the double \<open>0.2\<close>, exactly when the
  rational quotient is above \<open>1 / 2\<close>, or above \<open>1 / 5\<close> (the quotient is either that
  fraction itself, which rounds to the same double, or at least \<open>1 / 100\<close> away from it).
\<close>

definition count_account :: "nat \<Rightarrow> tweet_record list \<Rightarrow> nat \<times> nat" where
  "count_account accNo accountTweets =
     foldl (\<lambda>(failCount, totalCount) tweet.
              case find (\<lambda>a. ar_accountNumber a = accNo) (tr_accounts tweet) of
                None \<Rightarrow> (failCount, totalCount)
              | Some accountResult \<Rightarrow>
                  (if \<not> ar_success accountResult then failCount + 1 else failCount, totalCount + 1))
       (0, 0) accountTweets"

definition base_delay :: "nat \<Rightarrow> tweet_record list \<Rightarrow> nat" where
  "base_delay accNo history =
     (let recentTweets = slice_last 20 history;
          accountTweets =
            filter (\<lambda>tweet. list_ex (\<lambda>a. ar_accountNumber a = accNo) (tr_accounts tweet)) recentTweets
      in if accountTweets = [] then 30000
         else (let (failCount, totalCount) = count_account accNo accountTweets;
                   failRate = (of_nat failCount / of_nat totalCount :: rat)
               in if failRate > 1 / 2 then 60000
                  else if failRate > 1 / 5 then 45000
                  else 30000))"

definition calculateSmartDelay :: "nat \<Rightarrow> tweet_record list \<Rightarrow> world \<Rightarrow> nat \<times> world" where
  "calculateSmartDelay accNo history w =
     (jitter w (draws w) (base_delay accNo history),
      w\<lparr>draws := Suc (draws w), delay_calls := delay_calls w @ [(accNo, history)]\<rparr>)"

section \<open>The Dispatch Loop: \<open>postTweetToAllAccounts\<close>\<close>

text \<open>\<open>config.twitterConfig?.maxRetries || 1\<close>, for a config that is an object.\<close>

definition max_retries :: "config \<Rightarrow> int" where
  "max_retries c =
     (case twitterConfig c of
        None \<Rightarrow> 1
      | Some tc \<Rightarrow> (case maxRetries tc of None \<Rightarrow> 1 | Some m \<Rightarrow> if m = 0 then 1 else int m))"

text \<open>
  The \<open>for ... of\<close> loop over the handles still to post to; \<open>twitterClients\<close> is the
  whole array and \<open>results\<close> the results pushed so far. The argument
  \<open>config.twitterConfig?.maxRetries\<close> throws a \<open>TypeError\<close> when the config is
  \<open>undefined\<close> (the message is the one for \<open>undefined\<close>; for \<open>null\<close> it reads
  \<open>of null\<close>), and a rejected attempt rejects the dispatch: the function has no
  \<open>catch\<close>.
\<close>

fun dispatch_loop ::
  "handle list \<Rightarrow> handle list \<Rightarrow> string \<Rightarrow> config option \<Rightarrow> post_result list \<Rightarrow> world \<Rightarrow>
   (js_error + post_result list) \<times> world" where
  "dispatch_loop [] twitterClients tweetText cfg results w = (Inr results, w)"
| "dispatch_loop (clientObj # rest) twitterClients tweetText cfg results w =
     (case cfg of
        None \<Rightarrow>
          (Inl (JsError TypeError None
                 ''Cannot read properties of undefined (reading 'twitterConfig')''), w)
      | Some c \<Rightarrow>
          (case postTweetWithClient w tweetText (Some clientObj) cfg (max_retries c) of
             (Inl e, w1) \<Rightarrow> (Inl e, w1)
           | (Inr result, w1) \<Rightarrow>
               (let w2 =
                      (if ref clientObj \<noteq> ref (last twitterClients)
                       then (let (delayMs, w') =
                                   calculateSmartDelay (accountNumber clientObj) (getTweetHistory w1) w1
                             in sleep delayMs w')
                       else w1)
                in dispatch_loop rest twitterClients tweetText cfg (results @ [result]) w2)))"

definition postTweetToAllAccounts ::
  "world \<Rightarrow> string \<Rightarrow> handle list \<Rightarrow> config option \<Rightarrow> (js_error + post_result list) \<times> world" where
  "postTweetToAllAccounts w tweetText twitterClients cfg =
     (if twitterClients = [] then (Inr [], w)
      else (case dispatch_loop twitterClients twitterClients tweetText cfg [] w of
              (Inl e, w1) \<Rightarrow> (Inl e, w1)
            | (Inr results, w1) \<Rightarrow> (Inr results, snd (saveTweetHistory tweetText results w1))))"

section \<open>The Account Registry: \<open>readAccountsFromFile\<close>, \<open>lazyLoadTwitterClient\<close>\<close>

text \<open>\<open>s.split(sep)\<close> for a separator of one character: never the empty list.\<close>

fun split_on :: "char \<Rightarrow> string \<Rightarrow> string list" where
  "split_on sep [] = [[]]"
| "split_on sep (c # cs) =
     (if c = sep then [] # split_on sep cs
      else (case split_on sep cs of
              [] \<Rightarrow> [[c]]
            | x # xs \<Rightarrow> (c # x) # xs))"

text \<open>The white space \<open>trim\<close> removes, among the code units below 256.\<close>

definition is_space :: "char \<Rightarrow> bool" where
  "is_space c = (c \<in> set [CHR 0x09, CHR 0x0A, CHR 0x0B, CHR 0x0C, CHR 0x0D, CHR 0x20, CHR 0xA0])"

definition trim :: "string \<Rightarrow> string" where
  "trim s = rev (dropWhile is_space (rev (dropWhile is_space s)))"

text \<open>A line both readers skip: empty after trimming, or a comment.\<close>

definition skipped :: "string \<Rightarrow> bool" where
  "skipped line = (trim line = [] \<or> prefix ''#'' (trim line))"

definition file_lines :: "string \<Rightarrow> string list" where
  "file_lines fileContent = split_on (CHR 0x0A) fileContent"

text \<open>AccountCredential, as \<open>readAccountsFromFile\<close> returns it.\<close>

record credential =
  cr_appKey :: string
  cr_appSecret :: string
  cr_accessToken :: string
  cr_accessSecret :: string
  cr_accountNumber :: nat

text \<open>
  The \<open>forEach\<close> of \<open>readAccountsFromFile\<close> over the lines still to read;
  \<open>accountCount\<close> is the number of accounts pushed so far.
\<close>

fun read_lines :: "string list \<Rightarrow> nat \<Rightarrow> credential list" where
  "read_lines [] accountCount = []"
| "read_lines (line # lines) accountCount =
     (if skipped line then read_lines lines accountCount
      else (case map trim (split_on (CHR '','') line) of
              [k, s, t, a] \<Rightarrow>
                if k \<noteq> [] \<and> s \<noteq> [] \<and> t \<noteq> [] \<and> a \<noteq> []
                then \<lparr>cr_appKey = k, cr_appSecret = s, cr_accessToken = t, cr_accessSecret = a,
                      cr_accountNumber = accountCount + 1\<rparr> # read_lines lines (accountCount + 1)
                else read_lines lines accountCount
            | _ \<Rightarrow> read_lines lines accountCount))"

definition sampleContent :: string where
  "sampleContent =
     ''# Twitter accounts in format: APP_KEY,APP_SECRET,ACCESS_TOKEN,ACCESS_SECRET'' @ [CHR 0x0A] @
     ''# Each line represents one account'' @ [CHR 0x0A] @
     ''# Example: YOUR_APP_KEY,YOUR_APP_SECRET,YOUR_ACCESS_TOKEN,YOUR_ACCESS_SECRET'' @ [CHR 0x0A] @
     ''# Add more accounts as needed, one per line in the same format''"

text \<open>\<open>accounts_file\<close> is \<open>None\<close> when \<open>accounts.txt\<close> does not exist.\<close>

definition readAccountsFromFile :: "world \<Rightarrow> credential list \<times> world" where
  "readAccountsFromFile w =
     (case accounts_file w of
        None \<Rightarrow> ([], w\<lparr>accounts_file := Some sampleContent\<rparr>)
      | Some fileContent \<Rightarrow> (read_lines (file_lines fileContent) 0, w))"

text \<open>
  The \<open>forEach\<close> of \<open>lazyLoadTwitterClient\<close> over the lines still to read.
  \<open>lineCount\<close> is the number of lines read before, \<open>skippedTotal\<close> the number of skipped
  lines of the whole file (the source counts them again at every line), \<open>account\<close> the
  variable the loop assigns.
\<close>

fun lazy_scan :: "string list \<Rightarrow> nat \<Rightarrow> nat \<Rightarrow> nat \<Rightarrow> credential option \<Rightarrow> credential option" where
  "lazy_scan [] lineCount skippedTotal accNo account = account"
| "lazy_scan (line # lines) lineCount skippedTotal accNo account =
     (if skipped line then lazy_scan lines (lineCount + 1) skippedTotal accNo account
      else (case map trim (split_on (CHR '','') line) of
              [k, s, t, a] \<Rightarrow>
                if int (lineCount + 1) - int skippedTotal = int accNo
                   \<and> k \<noteq> [] \<and> s \<noteq> [] \<and> t \<noteq> [] \<and> a \<noteq> []
                then lazy_scan lines (lineCount + 1) skippedTotal accNo
                       (Some \<lparr>cr_appKey = k, cr_appSecret = s, cr_accessToken = t,
                              cr_accessSecret = a, cr_accountNumber = accNo\<rparr>)
                else lazy_scan lines (lineCount + 1) skippedTotal accNo account
            | _ \<Rightarrow> lazy_scan lines (lineCount + 1) skippedTotal accNo account))"

text \<open>
  \<open>lazyLoadTwitterClient(accountNumber, twitterClients)\<close>: the handle or \<open>null\<close>, and
  the array after the call. A file that cannot be read gives \<open>null\<close>.
\<close>

definition lazyLoadTwitterClient ::
  "nat \<Rightarrow> handle list \<Rightarrow> world \<Rightarrow> handle option \<times> handle list \<times> world" where
  "lazyLoadTwitterClient accNo twitterClients w =
     (case find (\<lambda>c. accountNumber c = accNo) twitterClients of
        Some existingClient \<Rightarrow> (Some existingClient, twitterClients, w)
      | None \<Rightarrow>
          (case accounts_file w of
             None \<Rightarrow> (None, twitterClients, w)
           | Some fileContent \<Rightarrow>
               (let lines = file_lines fileContent;
                    skippedTotal = length (filter skipped lines)
                in case lazy_scan lines 0 skippedTotal accNo None of
                     None \<Rightarrow> (None, twitterClients, w)
                   | Some account \<Rightarrow>
                       (let client = \<lparr>ref = next_ref w, appKey = cr_appKey account,
                                      appSecret = cr_appSecret account,
                                      accessToken = cr_accessToken account,
                                      accessSecret = cr_accessSecret account,
                                      accountNumber = cr_accountNumber account\<rparr>
                        in (Some client, twitterClients @ [client],
                            w\<lparr>next_ref := Suc (next_ref w)\<rparr>)))))"

section \<open>The Retry Sweep: \<open>retryFailedTweets\<close>\<close>

text \<open>
  The state of a sweep: the variable \<open>failedTweets\<close>, the array \<open>twitterClients\<close>, and
  the world.
\<close>

type_synonym sweep = "failed_tweet list \<times> handle list \<times> world"

definition same_post :: "failed_tweet \<Rightarrow> failed_tweet \<Rightarrow> bool" where
  "same_post t tweet = (ft_accountNumber t = ft_accountNumber tweet \<and> ft_text t = ft_text tweet)"

text \<open>
  The inner loop, over the tweets of one account still to replay. \<open>clientObj\<close> is what
  \<open>find\<close> gave for the account. A rejected attempt is thrown by \<open>await\<close> and ends the
  sweep (\<open>Some\<close> of the error).
\<close>

fun retry_tweets ::
  "failed_tweet list \<Rightarrow> nat \<Rightarrow> handle option \<Rightarrow> config option \<Rightarrow> sweep \<Rightarrow> js_error option \<times> sweep" where
  "retry_tweets [] accNo clientObj cfg st = (None, st)"
| "retry_tweets (tweet # rest) accNo clientObj cfg (failedTweets, twitterClients, w) =
     (let (client, twitterClients1, w1) =
            (case clientObj of
               Some h \<Rightarrow> (Some h, twitterClients, w)
             | None \<Rightarrow> lazyLoadTwitterClient accNo twitterClients w)
      in case postTweetWithClient w1 (ft_text tweet) client cfg 1 of
           (Inl e, w2) \<Rightarrow> (Some e, (failedTweets, twitterClients1, w2))
         | (Inr result, w2) \<Rightarrow>
             (let (failedTweets', w3) =
                    (if success result
                     then (let kept = filter (\<lambda>t. \<not> same_post t tweet) failedTweets
                           in (kept, w2\<lparr>failed_file := Parsed kept\<rparr>))
                     else (failedTweets, w2))
              in retry_tweets rest accNo clientObj cfg (failedTweets', twitterClients1, sleep 5000 w3)))"

text \<open>
  The outer loop, over the keys of \<open>tweetsByAccount\<close> still to process; \<open>grouped\<close> is
  the list the groups were built from.
\<close>

fun retry_accounts ::
  "nat list \<Rightarrow> failed_tweet list \<Rightarrow> config option \<Rightarrow> sweep \<Rightarrow> js_error option \<times> sweep" where
  "retry_accounts [] grouped cfg st = (None, st)"
| "retry_accounts (accNo # keys) grouped cfg (failedTweets, twitterClients, w) =
     (let accountTweets = filter (\<lambda>t. ft_accountNumber t = accNo) grouped;
          clientObj = find (\<lambda>c. accountNumber c = accNo) twitterClients;
          (lazyClient, twitterClients1, w1) =
            (case clientObj of
               Some h \<Rightarrow> (Some h, twitterClients, w)
             | None \<Rightarrow> lazyLoadTwitterClient accNo twitterClients w)
      in if lazyClient = None then retry_accounts keys grouped cfg (failedTweets, twitterClients1, w1)
         else (case retry_tweets accountTweets accNo clientObj cfg (failedTweets, twitterClients1, w1) of
                 (Some e, st) \<Rightarrow> (Some e, st)
               | (None, st) \<Rightarrow> retry_accounts keys grouped cfg st))"

text \<open>
  The keys of \<open>tweetsByAccount\<close> in the order \<open>for ... in\<close> visits them: integer keys
  ascending (account numbers below \<open>2^32 - 1\<close>).
\<close>

definition account_keys :: "failed_tweet list \<Rightarrow> nat list" where
  "account_keys failedTweets = sort (remdups (map ft_accountNumber failedTweets))"

text \<open>
  \<open>retryFailedTweets(twitterClients, config)\<close>: the value returned, the array and the
  world after the sweep. An error thrown inside is caught and gives \<open>false\<close>.
\<close>

definition retryFailedTweets :: "handle list \<Rightarrow> config option \<Rightarrow> world \<Rightarrow> bool \<times> handle list \<times> world" where
  "retryFailedTweets twitterClients cfg w =
     (case failed_file w of
        Missing \<Rightarrow> (False, twitterClients, w)
      | Unparsable \<Rightarrow> (False, twitterClients, w)
      | Parsed failedTweets \<Rightarrow>
          if failedTweets = [] then (False, twitterClients, w)
          else (case retry_accounts (account_keys failedTweets) failedTweets cfg
                       (failedTweets, twitterClients, w) of
                  (Some e, (failedTweets', twitterClients', w')) \<Rightarrow> (False, twitterClients', w')
                | (None, (failedTweets', twitterClients', w')) \<Rightarrow> (True, twitterClients', w')))"

section \<open>The Template Feedback Selector: the scores of \<open>selectSmartTemplate\<close>\<close>






section \<open>What an attempt chain leaves untouched\<close>

text \<open>
  \<open>posting_frame w w'\<close>: from \<open>w\<close> to \<open>w'\<close> only the transport log, the sleeps, the
  clock readings and the Failure Queue may have changed.
\<close>

definition posting_frame :: "world \<Rightarrow> world \<Rightarrow> bool" where
  "posting_frame w w' =
     (env_simulation w' = env_simulation w \<and> publish w' = publish w \<and> clock w' = clock w \<and>
      jitter w' = jitter w \<and> draws w' = draws w \<and> delay_calls w' = delay_calls w \<and>
      history_file w' = history_file w \<and> accounts_file w' = accounts_file w \<and>
      next_ref w' = next_ref w)"


section \<open>Values for concrete runs\<close>

text \<open>
  A world with nothing done yet, in which the transport behaves as \<open>p\<close> and the Failure
  Queue file is \<open>q\<close>; the clock stands at the epoch and the random factor is 1.
\<close>

definition fresh_world ::
  "(nat \<Rightarrow> nat \<Rightarrow> string \<Rightarrow> tweet_outcome) \<Rightarrow> failed_tweet json_file \<Rightarrow> world" where
  "fresh_world p q =
     \<lparr>env_simulation = False, publish = p, calls = [], clock = (\<lambda>k. 0), clock_reads = 0,
      sleeps = [], jitter = (\<lambda>k d. d), draws = 0, delay_calls = [], failed_file = q,
      history_file = Missing, accounts_file = None, next_ref = 0\<rparr>"

text \<open>The handle of account \<open>n\<close> (object \<open>n\<close>), and the config that \<open>config.json\<close> has by default.\<close>

definition account_handle :: "nat \<Rightarrow> handle" where
  "account_handle n =
     \<lparr>ref = n, appKey = ''key'', appSecret = ''secret'', accessToken = ''token'',
      accessSecret = ''access'', accountNumber = n\<rparr>"

definition default_config :: config where
  "default_config =
     \<lparr>twitterConfig = Some \<lparr>retryDelay = Some 300, maxRetries = Some 1\<rparr>, simulationMode = False\<rparr>"

text \<open>A transport that accepts every text, and one that rejects every text with one code.\<close>

definition accepting :: "nat \<Rightarrow> nat \<Rightarrow> string \<Rightarrow> tweet_outcome" where
  "accepting k n t = Response (Some ''1001'')"

definition rejecting :: "int \<Rightarrow> nat \<Rightarrow> nat \<Rightarrow> string \<Rightarrow> tweet_outcome" where
  "rejecting code k n t = Throws (Some code) ''rejected''"

text \<open>Two accounts, as two distinct handle objects.\<close>

definition two_accounts :: "handle list" where
  "two_accounts = [account_handle 1, account_handle 2]"



text \<open>
  An \<open>accounts.txt\<close> of two credential lines, each ended by a newline, and a world that
  has it.
\<close>

definition two_line_file :: string where
  "two_line_file = ''a1,a2,a3,a4'' @ [CHR 0x0A] @ ''b1,b2,b3,b4'' @ [CHR 0x0A]"

definition registry_world :: world where
  "registry_world = (fresh_world accepting Missing)\<lparr>accounts_file := Some two_line_file\<rparr>"

text \<open>
  A Failure Queue of two posts of account 1, and a transport that reports the first text as
  a duplicate, accepts the second and forbids every other text.
\<close>

definition post_a :: failed_tweet where
  "post_a = \<lparr>ft_timestamp = 0, ft_text = ''a'', ft_accountNumber = 1\<rparr>"

definition post_b :: failed_tweet where
  "post_b = \<lparr>ft_timestamp = 0, ft_text = ''b'', ft_accountNumber = 1\<rparr>"

definition post_a_stamped :: failed_tweet where
  "post_a_stamped = \<lparr>ft_timestamp = 0, ft_text = ''a [00:00:00]'', ft_accountNumber = 1\<rparr>"

definition picky :: "nat \<Rightarrow> nat \<Rightarrow> string \<Rightarrow> tweet_outcome" where
  "picky k n t =
     (if t = ''a'' then Throws (Some 187) ''duplicate''
      else if t = ''b'' then Response (Some ''1001'')
      else Throws (Some 403) ''forbidden'')"

definition sweep_world :: world where
  "sweep_world = fresh_world picky (Parsed [post_a, post_b])"

section \<open>The branches of an attempt, and induction along the chain\<close>

lemma ptc_no_handle: "postTweetWithClient w t None cfg n = (Inl outer_catch, w)"
  by (subst postTweetWithClient.simps) simp

lemma ptc_simulating:
  "simulating w cfg \<Longrightarrow> postTweetWithClient w t (Some h) cfg n = simulated_result w h"
  by (subst postTweetWithClient.simps) simp

lemma ptc_no_config:
  "\<not> simulating w None \<Longrightarrow> postTweetWithClient w t (Some h) None n = (Inl outer_catch, w)"
  by (subst postTweetWithClient.simps) simp

lemma ptc_posted:
  "\<not> simulating w (Some c) \<Longrightarrow> try_post w t h = (Inr i, w1) \<Longrightarrow>
   postTweetWithClient w t (Some h) (Some c) n = (Inr (posted_result h i), w1)"
  by (subst postTweetWithClient.simps) simp

lemma ptc_rate_limited:
  "\<not> simulating w (Some c) \<Longrightarrow> try_post w t h = (Inl e, w1) \<Longrightarrow> err_code e = Some 429 \<Longrightarrow> 0 < n \<Longrightarrow>
   postTweetWithClient w t (Some h) (Some c) n =
   postTweetWithClient (sleep (waitTime c) w1) t (Some h) (Some c) (n - 1)"
  by (subst postTweetWithClient.simps) simp

lemma ptc_duplicate:
  "\<not> simulating w (Some c) \<Longrightarrow> try_post w t h = (Inl e, w1) \<Longrightarrow> err_code e = Some 187 \<Longrightarrow> 0 < n \<Longrightarrow>
   postTweetWithClient w t (Some h) (Some c) n =
   postTweetWithClient (sleep 2000 (snd (now w1))) (uniqueTweet t (iso_time (fst (now w1))))
     (Some h) (Some c) (n - 1)"
  by (subst postTweetWithClient.simps) simp

lemma ptc_failed:
  "\<not> simulating w (Some c) \<Longrightarrow> try_post w t h = (Inl e, w1) \<Longrightarrow>
   \<not> 0 < n \<or> (err_code e \<noteq> Some 429 \<and> err_code e \<noteq> Some 187) \<Longrightarrow>
   postTweetWithClient w t (Some h) (Some c) n =
   (Inr (failed_result h e), saveFailedTweet t (accountNumber h) w1)"
  by (subst postTweetWithClient.simps) auto

text \<open>
  Induction along the chain: a property of the settled result holds if it holds where the
  chain ends and is carried back over each retry.
\<close>

lemma ptc_chain_induct [case_names no_handle simulating no_config posted rate_limited duplicate failed]:
  assumes "\<And>w t co n. P w t None co n (Inl outer_catch, w)"
    and "\<And>w t h co n. simulating w co \<Longrightarrow> P w t (Some h) co n (simulated_result w h)"
    and "\<And>w t h n. \<not> simulating w None \<Longrightarrow> P w t (Some h) None n (Inl outer_catch, w)"
    and "\<And>w t h c n i w1. \<not> simulating w (Some c) \<Longrightarrow> try_post w t h = (Inr i, w1) \<Longrightarrow>
           P w t (Some h) (Some c) n (Inr (posted_result h i), w1)"
    and "\<And>w t h c n e w1 r. \<not> simulating w (Some c) \<Longrightarrow> try_post w t h = (Inl e, w1) \<Longrightarrow>
           err_code e = Some 429 \<Longrightarrow> 0 < n \<Longrightarrow>
           P (sleep (waitTime c) w1) t (Some h) (Some c) (n - 1) r \<Longrightarrow>
           P w t (Some h) (Some c) n r"
    and "\<And>w t h c n e w1 r. \<not> simulating w (Some c) \<Longrightarrow> try_post w t h = (Inl e, w1) \<Longrightarrow>
           err_code e = Some 187 \<Longrightarrow> 0 < n \<Longrightarrow>
           P (sleep 2000 (snd (now w1))) (uniqueTweet t (iso_time (fst (now w1)))) (Some h) (Some c)
             (n - 1) r \<Longrightarrow>
           P w t (Some h) (Some c) n r"
    and "\<And>w t h c n e w1. \<not> simulating w (Some c) \<Longrightarrow> try_post w t h = (Inl e, w1) \<Longrightarrow>
           \<not> 0 < n \<or> (err_code e \<noteq> Some 429 \<and> err_code e \<noteq> Some 187) \<Longrightarrow>
           P w t (Some h) (Some c) n (Inr (failed_result h e), saveFailedTweet t (accountNumber h) w1)"
  shows "P w t ho co n (postTweetWithClient w t ho co n)"
proof (induction w t ho co n rule: postTweetWithClient.induct)
  case (1 w t ho co n)
  note IH = "1.IH"
  show ?case
  proof (cases ho)
    case None
    then show ?thesis using assms(1) [of w t co n] by (simp add: ptc_no_handle)
  next
    case h: (Some h)
    show ?thesis
    proof (cases "simulating w co")
      case True
      then show ?thesis using assms(2) [of w co t h n] h by (simp add: ptc_simulating)
    next
      case nosim: False
      show ?thesis
      proof (cases co)
        case None
        then show ?thesis using assms(3) [of w t h n] h nosim
          by (simp add: ptc_no_config)
      next
        case c: (Some c)
        have ns: "\<not> simulating w (Some c)" using nosim c by simp
        obtain r w1 where tp: "try_post w t h = (r, w1)" by (cases "try_post w t h")
        show ?thesis
        proof (cases r)
          case (Inr i)
          then show ?thesis using assms(4) [OF ns, of t h i w1 n] h c tp by (simp add: ptc_posted [OF ns])
        next
          case e: (Inl e)
          have tpe: "try_post w t h = (Inl e, w1)" using tp e by simp
          consider (rate) "err_code e = Some 429" "0 < n"
            | (dup) "err_code e = Some 187" "0 < n"
            | (fail) "\<not> 0 < n \<or> (err_code e \<noteq> Some 429 \<and> err_code e \<noteq> Some 187)"
            by blast
          then show ?thesis
          proof cases
            case rate
            have "P (sleep (waitTime c) w1) t ho co (n - 1)
                    (postTweetWithClient (sleep (waitTime c) w1) t ho co (n - 1))"
              using IH(1) [OF h nosim c tp [symmetric]] e rate by simp
            then show ?thesis
              using assms(5) [OF ns tpe rate] h c by (simp add: ptc_rate_limited [OF ns tpe rate])
          next
            case dup
            have ne: "\<not> (err_code e = Some 429 \<and> 0 < n)" using dup by simp
            obtain ts w2 where nw: "now w1 = (ts, w2)" by (cases "now w1")
            have "P (sleep 2000 w2) (uniqueTweet t (iso_time ts)) ho co (n - 1)
                    (postTweetWithClient (sleep 2000 w2) (uniqueTweet t (iso_time ts)) ho co (n - 1))"
              using IH(2) [OF h nosim c tp [symmetric] _ ne] e dup nw by simp
            then show ?thesis
              using assms(6) [OF ns tpe dup] h c nw by (simp add: ptc_duplicate [OF ns tpe dup])
          next
            case fail
            then show ?thesis using assms(7) [OF ns tpe fail] h c
              by (simp add: ptc_failed [OF ns tpe fail])
          qed
        qed
      qed
    qed
  qed
qed

section \<open>Effects of the steps of an attempt\<close>

lemma now_unchanged [simp]:
  "calls (snd (now w)) = calls w" "sleeps (snd (now w)) = sleeps w"
  "failed_file (snd (now w)) = failed_file w" "publish (snd (now w)) = publish w"
  "fst (now w) = clock w (clock_reads w)"
  by (simp_all add: now_def)

lemma saveFailedTweet_fields [simp]:
  "calls (saveFailedTweet t n w) = calls w" "sleeps (saveFailedTweet t n w) = sleeps w"
  "failed_file (saveFailedTweet t n w) =
     Parsed (file_entries (failed_file w) @
       [\<lparr>ft_timestamp = clock w (clock_reads w), ft_text = t, ft_accountNumber = n\<rparr>])"
  by (simp_all add: saveFailedTweet_def now_def Let_def)

lemma try_post_invalid:
  "tweetText = [] \<Longrightarrow> try_post w tweetText h = (Inl (JsError PlainError None ''Tweet text is empty''), w)"
  "280 < length tweetText \<Longrightarrow>
   try_post w tweetText h =
     (Inl (JsError PlainError None ''Tweet text exceeds maximum length of 280 characters''), w)"
  by (auto simp add: try_post_def)

lemma try_post_grows:
  "sleeps (snd (try_post w t h)) = sleeps w"
  "clock_reads (snd (try_post w t h)) = clock_reads w"
  "clock (snd (try_post w t h)) = clock w"
  "failed_file (snd (try_post w t h)) = failed_file w"
  "calls (snd (try_post w t h)) = calls w \<or> calls (snd (try_post w t h)) = calls w @ [(accountNumber h, t)]"
  by (simp_all add: try_post_def Let_def split: tweet_outcome.splits option.splits)

lemma sleep_fields [simp]:
  "sleeps (sleep ms w) = sleeps w @ [ms]" "calls (sleep ms w) = calls w"
  "failed_file (sleep ms w) = failed_file w" "clock (sleep ms w) = clock w"
  "clock_reads (sleep ms w) = clock_reads w" "publish (sleep ms w) = publish w"
  by (simp_all add: sleep_def)

lemma now_more [simp]:
  "clock (snd (now w)) = clock w" "clock_reads (snd (now w)) = Suc (clock_reads w)"
  by (simp_all add: now_def)





lemma simulating_steps [simp]:
  "simulating (sleep ms w) cfg = simulating w cfg"
  "simulating (snd (now w)) cfg = simulating w cfg"
  "simulating (w\<lparr>calls := cs\<rparr>) cfg = simulating w cfg"
  by (simp_all add: simulating_def sleep_def now_def)


lemma iso_time_epoch: "iso_time 0 = ''00:00:00''"
  by (simp add: iso_time_def pad2_def digit_def)

text \<open>The definitions a concrete run unfolds.\<close>

lemmas run_simps =
  postTweetWithClient.simps simulating_def fresh_world_def default_config_def
  account_handle_def try_post_def Let_def waitTime_def sleep_def now_def
  uniqueTweet_def iso_time_epoch saveFailedTweet_def file_entries_def failed_result_def
  posted_result_def simulated_result_def accepting_def rejecting_def max_retries_def
  outer_catch_def

section \<open>Validation comes before the transport\<close>

text \<open>
  Claim C4. With simulation off, a text longer than 280 units, or an empty text, fails
  validation before the transport is called: for every retry count the attempt resolves
  to a result with \<open>success = false\<close> carrying the validation error, the transport log
  is as it was (no call), no sleep happens (no retry is taken), and the text is appended
  to the Failure Queue for the account.
\<close>

theorem validation_fails_before_transport:
  assumes "280 < length tweetText \<or> tweetText = []"
    and "\<not> simulating w (Some c)"
  shows "\<exists>r w'. postTweetWithClient w tweetText (Some h) (Some c) retryCount = (Inr r, w') \<and>
           \<not> success r \<and>
           error r = Some (JsError PlainError None
                       (if tweetText = [] then ''Tweet text is empty''
                        else ''Tweet text exceeds maximum length of 280 characters'')) \<and>
           calls w' = calls w \<and> sleeps w' = sleeps w \<and>
           failed_file w' =
             Parsed (file_entries (failed_file w) @
               [\<lparr>ft_timestamp = clock w (clock_reads w), ft_text = tweetText,
                 ft_accountNumber = accountNumber h\<rparr>])"
proof (cases "tweetText = []")
  case True
  have "postTweetWithClient w tweetText (Some h) (Some c) retryCount =
          (Inr (failed_result h (JsError PlainError None ''Tweet text is empty'')),
           saveFailedTweet tweetText (accountNumber h) w)"
    by (rule ptc_failed [OF assms(2) try_post_invalid(1) [OF True]]) simp
  then show ?thesis using True by (simp add: failed_result_def)
next
  case False
  then have long: "280 < length tweetText" using assms(1) by simp
  have "postTweetWithClient w tweetText (Some h) (Some c) retryCount =
          (Inr (failed_result h
                 (JsError PlainError None ''Tweet text exceeds maximum length of 280 characters'')),
           saveFailedTweet tweetText (accountNumber h) w)"
    by (rule ptc_failed [OF assms(2) try_post_invalid(2) [OF long]]) simp
  then show ?thesis using False by (simp add: failed_result_def)
qed

theorem validation_fails_before_transport_witness:
  "(280 < length (replicate 281 CHR ''x'') \<and>
    \<not> simulating (fresh_world accepting Missing) (Some default_config) \<and>
    (\<exists>r w'. postTweetWithClient (fresh_world accepting Missing) (replicate 281 CHR ''x'')
               (Some (account_handle 1)) (Some default_config) 1 = (Inr r, w') \<and>
            \<not> success r \<and> calls w' = [] \<and> sleeps w' = [] \<and>
            failed_file w' =
              Parsed [\<lparr>ft_timestamp = 0, ft_text = replicate 281 CHR ''x'', ft_accountNumber = 1\<rparr>])) \<and>
   (\<exists>r w'. postTweetWithClient (fresh_world accepting Missing) []
              (Some (account_handle 1)) (Some default_config) 1 = (Inr r, w') \<and>
           \<not> success r \<and> calls w' = [] \<and> sleeps w' = [] \<and>
           failed_file w' = Parsed [\<lparr>ft_timestamp = 0, ft_text = [], ft_accountNumber = 1\<rparr>])"
proof -
  have a: "280 < length (replicate 281 CHR ''x'') \<or> replicate 281 CHR ''x'' = []" by simp
  have a': "280 < length ([] :: string) \<or> ([] :: string) = []" by simp
  have b: "\<not> simulating (fresh_world accepting Missing) (Some default_config)"
    by (simp add: simulating_def fresh_world_def default_config_def)
  show ?thesis
    using validation_fails_before_transport [OF a b, of "account_handle 1" 1]
      validation_fails_before_transport [OF a' b, of "account_handle 1" 1] b
    by (auto simp add: fresh_world_def account_handle_def file_entries_def)
qed

section \<open>The retry budget\<close>







section \<open>The retry after a duplicate-content error\<close>



section \<open>The History Store keeps the last 100 records\<close>

lemma history_account_numbers:
  "ar_accountNumber (fst (history_account r w)) = pr_accountNumber r"
  "ar_success (fst (history_account r w)) = success r"
  by (simp_all add: history_account_def Let_def split_beta)

lemma history_accounts_numbers:
  "map ar_accountNumber (fst (history_accounts rs w)) = map pr_accountNumber rs \<and>
   map ar_success (fst (history_accounts rs w)) = map success rs"
  by (induction rs arbitrary: w) (simp_all add: split_beta history_account_numbers)

text \<open>
  Claim C5. Whatever the history file held before (nothing, text that does not parse, or
  any list of records, of any length), after \<open>saveTweetHistory\<close> the file holds the list
  the function returns; that list has at most 100 records; it is the old list without its
  oldest records (all but the last 99 are dropped), unchanged and in order, followed by
  the new record, which carries the text and one entry for each result.
\<close>

theorem history_capped_fifo:
  "history_file (snd (saveTweetHistory tweetText results w)) =
     Parsed (fst (saveTweetHistory tweetText results w)) \<and>
   length (fst (saveTweetHistory tweetText results w)) \<le> 100 \<and>
   suffix (butlast (fst (saveTweetHistory tweetText results w))) (file_entries (history_file w)) \<and>
   (\<exists>e. fst (saveTweetHistory tweetText results w) =
          drop (length (file_entries (history_file w)) - 99) (file_entries (history_file w)) @ [e] \<and>
        tr_text e = tweetText \<and>
        map ar_accountNumber (tr_accounts e) = map pr_accountNumber results \<and>
        map ar_success (tr_accounts e) = map success results)"
proof -
  define old where "old = file_entries (history_file w)"
  define e where "e = \<lparr>tr_timestamp = fst (now w), tr_text = tweetText,
                        tr_accounts = fst (history_accounts results (snd (now w)))\<rparr>"
  have kept: "fst (saveTweetHistory tweetText results w) = drop (length old - 99) old @ [e]"
    by (simp add: saveTweetHistory_def Let_def split_beta old_def e_def)
  have written: "history_file (snd (saveTweetHistory tweetText results w)) =
                Parsed (fst (saveTweetHistory tweetText results w))"
    by (simp add: saveTweetHistory_def Let_def split_beta)
  have len: "length (drop (length old - 99) old @ [e]) \<le> 100" by simp
  have suf: "suffix (butlast (drop (length old - 99) old @ [e])) old"
    by (simp add: suffix_drop)
  have e_fields: "tr_text e = tweetText"
    "map ar_accountNumber (tr_accounts e) = map pr_accountNumber results"
    "map ar_success (tr_accounts e) = map success results"
    by (simp_all add: e_def history_accounts_numbers)
  show ?thesis
    unfolding written kept using len suf e_fields old_def by blast
qed

section \<open>The scores of the Template Feedback Selector\<close>




section \<open>The Dispatch Loop asks for the delay of the account just posted to\<close>

lemma posting_frame_refl: "posting_frame w w"
  by (simp add: posting_frame_def)

lemma posting_frame_trans: "posting_frame w w1 \<Longrightarrow> posting_frame w1 w2 \<Longrightarrow> posting_frame w w2"
  by (simp add: posting_frame_def)

lemma posting_frame_steps:
  "posting_frame w (snd (now w))" "posting_frame w (sleep ms w)"
  "posting_frame w (snd (try_post w t h))" "posting_frame w (saveFailedTweet t n w)"
  by (simp_all add: posting_frame_def now_def sleep_def try_post_def saveFailedTweet_def Let_def
      split: tweet_outcome.splits option.splits)

lemma ptc_posting_frame: "posting_frame w (snd (postTweetWithClient w t ho co n))"
proof (induction rule: ptc_chain_induct [where P = "\<lambda>w t ho co n r. posting_frame w (snd r)"])
  case (no_handle w t co n)
  then show ?case by (simp add: posting_frame_refl)
next
  case (simulating w t h co n)
  then show ?case by (simp add: simulated_result_def posting_frame_steps)
next
  case (no_config w t h n)
  then show ?case by (simp add: posting_frame_refl)
next
  case (posted w t h c n i w1)
  then show ?case using posting_frame_steps(3) [of w t h] by simp
next
  case (rate_limited w t h c n e w1 r)
  have "posting_frame w w1" using posting_frame_steps(3) [of w t h] rate_limited by simp
  then show ?case
    using posting_frame_steps(2) [of w1 "waitTime c"] rate_limited(5)
    by (blast intro: posting_frame_trans)
next
  case (duplicate w t h c n e w1 r)
  have "posting_frame w w1" using posting_frame_steps(3) [of w t h] duplicate by simp
  then show ?case
    using posting_frame_steps(1) [of w1] posting_frame_steps(2) [of "snd (now w1)" 2000] duplicate(5)
    by (blast intro: posting_frame_trans)
next
  case (failed w t h c n e w1)
  have "posting_frame w w1" using posting_frame_steps(3) [of w t h] failed by simp
  then show ?case
    using posting_frame_steps(4) [of w1 t "accountNumber h"] by (auto intro: posting_frame_trans)
qed

text \<open>With a handle and a config that are objects, the promise resolves.\<close>

lemma ptc_resolves:
  "\<exists>r. fst (postTweetWithClient w t (Some h) (Some c) n) = Inr r \<and>
       pr_accountNumber r = accountNumber h \<and> (\<not> success r \<longrightarrow> error r \<noteq> None)"
proof -
  have "ho \<noteq> None \<and> co \<noteq> None \<longrightarrow>
          (\<exists>r. fst (postTweetWithClient w t ho co n) = Inr r \<and>
               pr_accountNumber r = accountNumber (the ho) \<and> (\<not> success r \<longrightarrow> error r \<noteq> None))"
    for ho co
  proof (induction rule: ptc_chain_induct [where P = "\<lambda>w t ho co n res. ho \<noteq> None \<and> co \<noteq> None \<longrightarrow>
          (\<exists>r. fst res = Inr r \<and>
               pr_accountNumber r = accountNumber (the ho) \<and> (\<not> success r \<longrightarrow> error r \<noteq> None))"])
    case (simulating w t h co n)
    then show ?case by (simp add: simulated_result_def)
  qed (simp_all add: posted_result_def failed_result_def)
  from this [of "Some h" "Some c"] show ?thesis by simp
qed

lemma history_accounts_frame:
  "delay_calls (snd (history_accounts rs w)) = delay_calls w"
proof (induction rs arbitrary: w)
  case Nil
  then show ?case by simp
next
  case (Cons r rs)
  have "delay_calls (snd (history_account r w)) = delay_calls w"
    by (simp add: history_account_def Let_def split_beta now_def split: option.splits)
  then show ?case using Cons.IH by (simp add: split_beta)
qed

lemma saveTweetHistory_delay_calls:
  "delay_calls (snd (saveTweetHistory t rs w)) = delay_calls w"
  by (simp add: saveTweetHistory_def Let_def split_beta history_accounts_frame now_def)

lemma dispatch_loop_delay_calls:
  "delay_calls (snd (dispatch_loop rest twitterClients t (Some c) results w)) =
     delay_calls w @
     map (\<lambda>h. (accountNumber h, getTweetHistory w))
       (filter (\<lambda>h. ref h \<noteq> ref (last twitterClients)) rest) \<and>
   (\<exists>rs. fst (dispatch_loop rest twitterClients t (Some c) results w) = Inr (results @ rs) \<and>
         map pr_accountNumber rs = map accountNumber rest)"
proof (induction rest arbitrary: results w)
  case Nil
  then show ?case by simp
next
  case (Cons clientObj rest)
  obtain r w1 where run: "postTweetWithClient w t (Some clientObj) (Some c) (max_retries c) = (Inr r, w1)"
    and acc: "pr_accountNumber r = accountNumber clientObj"
    using ptc_resolves [of w t clientObj c "max_retries c"]
    by (cases "postTweetWithClient w t (Some clientObj) (Some c) (max_retries c)") auto
  have frame: "posting_frame w w1"
    using ptc_posting_frame [of w t "Some clientObj" "Some c" "max_retries c"] run by simp
  then have same: "delay_calls w1 = delay_calls w" "getTweetHistory w1 = getTweetHistory w"
    by (simp_all add: posting_frame_def getTweetHistory_def)
  define w2 where "w2 =
     (if ref clientObj \<noteq> ref (last twitterClients)
      then sleep (fst (calculateSmartDelay (accountNumber clientObj) (getTweetHistory w1) w1))
             (snd (calculateSmartDelay (accountNumber clientObj) (getTweetHistory w1) w1))
      else w1)"
  have step: "dispatch_loop (clientObj # rest) twitterClients t (Some c) results w =
                dispatch_loop rest twitterClients t (Some c) (results @ [r]) w2"
    by (simp add: run w2_def Let_def split_beta)
  have w2_calls: "delay_calls w2 = delay_calls w @
      (if ref clientObj \<noteq> ref (last twitterClients)
       then [(accountNumber clientObj, getTweetHistory w)] else [])"
    by (simp add: w2_def calculateSmartDelay_def sleep_def same)
  have w2_hist: "getTweetHistory w2 = getTweetHistory w"
    using same(2) by (simp add: w2_def calculateSmartDelay_def sleep_def getTweetHistory_def)
  show ?case
    unfolding step using Cons.IH [of "results @ [r]" w2] acc by (auto simp add: w2_calls w2_hist)
qed

lemma filter_not_last:
  "distinct (map ref xs) \<Longrightarrow> filter (\<lambda>h. ref h \<noteq> ref (last xs)) xs = butlast xs"
proof (induction xs rule: rev_induct)
  case Nil
  then show ?case by simp
next
  case (snoc x xs)
  from snoc.prems have "ref x \<notin> ref ` set xs" by simp
  then have "\<forall>h \<in> set xs. ref h \<noteq> ref x" by (metis imageI)
  then have "filter (\<lambda>h. ref h \<noteq> ref x) xs = xs" by (simp add: filter_id_conv)
  then show ?case by simp
qed

lemma not_last_ref:
  assumes "distinct (map ref xs)" and "a \<in> set xs" and "a \<noteq> last xs"
  shows "ref a \<noteq> ref (last xs)"
proof -
  have "xs \<noteq> []" using assms(2) by auto
  then have "last xs \<in> set xs" by simp
  then show ?thesis using assms by (auto simp add: distinct_map inj_on_def)
qed

lemma dispatch_step:
  assumes "ref a \<noteq> ref (last twitterClients)"
  shows "\<exists>r w1 d w2.
           postTweetWithClient w' tweetText (Some a) (Some c) (max_retries c) = (Inr r, w1) \<and>
           pr_accountNumber r = accountNumber a \<and>
           getTweetHistory w1 = getTweetHistory w' \<and>
           calculateSmartDelay (accountNumber a) (getTweetHistory w1) w1 = (d, w2) \<and>
           d = jitter w' (draws w') (base_delay (accountNumber a) (getTweetHistory w')) \<and>
           delay_calls w2 = delay_calls w' @ [(accountNumber a, getTweetHistory w')] \<and>
           calls (sleep d w2) = calls w1 \<and> sleeps (sleep d w2) = sleeps w1 @ [d] \<and>
           dispatch_loop (a # rest) twitterClients tweetText (Some c) results w' =
             dispatch_loop rest twitterClients tweetText (Some c) (results @ [r]) (sleep d w2)"
proof -
  obtain r w1 where run: "postTweetWithClient w' tweetText (Some a) (Some c) (max_retries c) = (Inr r, w1)"
    and acc: "pr_accountNumber r = accountNumber a"
    using ptc_resolves [of w' tweetText a c "max_retries c"]
    by (cases "postTweetWithClient w' tweetText (Some a) (Some c) (max_retries c)") auto
  have frame: "posting_frame w' w1"
    using ptc_posting_frame [of w' tweetText "Some a" "Some c" "max_retries c"] run by simp
  obtain d w2 where calc: "calculateSmartDelay (accountNumber a) (getTweetHistory w1) w1 = (d, w2)"
    by (cases "calculateSmartDelay (accountNumber a) (getTweetHistory w1) w1")
  have hist: "getTweetHistory w1 = getTweetHistory w'"
    using frame by (simp add: posting_frame_def getTweetHistory_def)
  have d: "d = jitter w' (draws w') (base_delay (accountNumber a) (getTweetHistory w'))"
    using calc frame hist by (auto simp add: calculateSmartDelay_def posting_frame_def)
  have log: "delay_calls w2 = delay_calls w' @ [(accountNumber a, getTweetHistory w')]"
    using calc frame hist by (auto simp add: calculateSmartDelay_def posting_frame_def)
  have eff: "calls (sleep d w2) = calls w1" "sleeps (sleep d w2) = sleeps w1 @ [d]"
    using calc by (auto simp add: calculateSmartDelay_def)
  have step: "dispatch_loop (a # rest) twitterClients tweetText (Some c) results w' =
             dispatch_loop rest twitterClients tweetText (Some c) (results @ [r]) (sleep d w2)"
    using assms by (simp add: run calc)
  show ?thesis using run acc hist calc d log eff step by blast
qed

lemma history_accounts_sleeps: "sleeps (snd (history_accounts rs w)) = sleeps w"
proof (induction rs arbitrary: w)
  case Nil
  then show ?case by simp
next
  case (Cons r rs)
  have "sleeps (snd (history_account r w)) = sleeps w"
    by (simp add: history_account_def Let_def split_beta now_def split: option.splits)
  then show ?case using Cons.IH by (simp add: split_beta)
qed

lemma saveTweetHistory_sleeps: "sleeps (snd (saveTweetHistory t rs w)) = sleeps w"
  by (simp add: saveTweetHistory_def Let_def split_beta history_accounts_sleeps now_def)

text \<open>
  Claim C7, as amended. Let the handles be distinct objects and the config an object.
  Whenever the loop is at a handle that is not the last of the array, in whatever state,
  the iteration runs in this order: it posts to that account, and the attempt resolves;
  it then calls the Adaptive Delay Calculator with the number of the account it has just
  posted to (not the number of the account that comes next) and with the history file as
  read after the post, which the post has not changed; it then sleeps the delay the
  calculator returned, which comes after every sleep of the attempt chain; and only then
  it goes on with the rest of the array. Over the whole dispatch the calculator is called
  once for each account but the last, in order, and the dispatch resolves to one result
  for each account.
\<close>

theorem delay_for_account_just_posted:
  assumes "distinct (map ref twitterClients)"
  shows "(a \<in> set twitterClients \<and> a \<noteq> last twitterClients \<longrightarrow>
          (\<exists>r w1 d w2.
             postTweetWithClient w' tweetText (Some a) (Some c) (max_retries c) = (Inr r, w1) \<and>
             pr_accountNumber r = accountNumber a \<and>
             getTweetHistory w1 = getTweetHistory w' \<and>
             calculateSmartDelay (accountNumber a) (getTweetHistory w1) w1 = (d, w2) \<and>
             d = jitter w' (draws w') (base_delay (accountNumber a) (getTweetHistory w')) \<and>
             delay_calls w2 = delay_calls w' @ [(accountNumber a, getTweetHistory w')] \<and>
             calls (sleep d w2) = calls w1 \<and> sleeps (sleep d w2) = sleeps w1 @ [d] \<and>
             dispatch_loop (a # rest) twitterClients tweetText (Some c) results w' =
               dispatch_loop rest twitterClients tweetText (Some c) (results @ [r]) (sleep d w2))) \<and>
         delay_calls (snd (postTweetToAllAccounts w tweetText twitterClients (Some c))) =
           delay_calls w @
           map (\<lambda>h. (accountNumber h, getTweetHistory w)) (butlast twitterClients) \<and>
         (\<exists>rs. fst (postTweetToAllAccounts w tweetText twitterClients (Some c)) = Inr rs \<and>
               map pr_accountNumber rs = map accountNumber twitterClients)"
proof (intro conjI impI)
  assume "a \<in> set twitterClients \<and> a \<noteq> last twitterClients"
  then have "ref a \<noteq> ref (last twitterClients)" using not_last_ref [OF assms] by blast
  then show "\<exists>r w1 d w2.
             postTweetWithClient w' tweetText (Some a) (Some c) (max_retries c) = (Inr r, w1) \<and>
             pr_accountNumber r = accountNumber a \<and>
             getTweetHistory w1 = getTweetHistory w' \<and>
             calculateSmartDelay (accountNumber a) (getTweetHistory w1) w1 = (d, w2) \<and>
             d = jitter w' (draws w') (base_delay (accountNumber a) (getTweetHistory w')) \<and>
             delay_calls w2 = delay_calls w' @ [(accountNumber a, getTweetHistory w')] \<and>
             calls (sleep d w2) = calls w1 \<and> sleeps (sleep d w2) = sleeps w1 @ [d] \<and>
             dispatch_loop (a # rest) twitterClients tweetText (Some c) results w' =
               dispatch_loop rest twitterClients tweetText (Some c) (results @ [r]) (sleep d w2)"
    by (rule dispatch_step)
next
  obtain rs w1 where loop: "twitterClients \<noteq> [] \<longrightarrow>
      dispatch_loop twitterClients twitterClients tweetText (Some c) [] w = (Inr rs, w1)"
    and rs: "twitterClients \<noteq> [] \<longrightarrow> map pr_accountNumber rs = map accountNumber twitterClients"
    using dispatch_loop_delay_calls [of twitterClients twitterClients tweetText c "[]" w]
    by (cases "dispatch_loop twitterClients twitterClients tweetText (Some c) [] w") auto
  have log: "twitterClients \<noteq> [] \<longrightarrow> delay_calls w1 = delay_calls w @
           map (\<lambda>h. (accountNumber h, getTweetHistory w)) (butlast twitterClients)"
    using dispatch_loop_delay_calls [of twitterClients twitterClients tweetText c "[]" w] loop
    by (auto simp add: filter_not_last [OF assms])
  show "delay_calls (snd (postTweetToAllAccounts w tweetText twitterClients (Some c))) =
           delay_calls w @
           map (\<lambda>h. (accountNumber h, getTweetHistory w)) (butlast twitterClients)"
    using loop log by (cases "twitterClients = []")
      (simp_all add: postTweetToAllAccounts_def saveTweetHistory_delay_calls)
  show "\<exists>rs. fst (postTweetToAllAccounts w tweetText twitterClients (Some c)) = Inr rs \<and>
               map pr_accountNumber rs = map accountNumber twitterClients"
    using loop rs by (cases "twitterClients = []") (simp_all add: postTweetToAllAccounts_def)
qed

theorem delay_for_account_just_posted_witness:
  "distinct (map ref two_accounts) \<and>
   account_handle 1 \<in> set two_accounts \<and> account_handle 1 \<noteq> last two_accounts \<and>
   (\<exists>r w1 w2.
      postTweetWithClient (fresh_world (rejecting 429) Missing) ''hello'' (Some (account_handle 1))
        (Some default_config) (max_retries default_config) = (Inr r, w1) \<and>
      sleeps w1 = [300000] \<and>
      calculateSmartDelay 1 (getTweetHistory w1) w1 = (30000, w2) \<and>
      delay_calls w2 = [(1, [])] \<and>
      sleeps (sleep 30000 w2) = [300000, 30000] \<and>
      dispatch_loop [account_handle 1, account_handle 2] two_accounts ''hello'' (Some default_config) []
          (fresh_world (rejecting 429) Missing) =
        dispatch_loop [account_handle 2] two_accounts ''hello'' (Some default_config) [r]
          (sleep 30000 w2)) \<and>
   delay_calls (snd (postTweetToAllAccounts (fresh_world (rejecting 429) Missing) ''hello''
                       two_accounts (Some default_config))) = [(1, [])] \<and>
   sleeps (snd (postTweetToAllAccounts (fresh_world (rejecting 429) Missing) ''hello''
                  two_accounts (Some default_config))) = [300000, 30000, 300000]"
proof -
  let ?w = "fresh_world (rejecting 429) Missing"
  have d: "distinct (map ref two_accounts)" by (simp add: two_accounts_def account_handle_def)
  have m: "account_handle 1 \<in> set two_accounts \<and> account_handle 1 \<noteq> last two_accounts"
    by (simp add: two_accounts_def account_handle_def)
  have run: "sleeps (snd (postTweetWithClient ?w ''hello'' (Some (account_handle 1))
                            (Some default_config) (max_retries default_config))) = [300000]"
    by (simp add: run_simps)
  have base: "jitter ?w (draws ?w) (base_delay 1 (getTweetHistory ?w)) = 30000"
    by (simp add: fresh_world_def base_delay_def slice_last_def getTweetHistory_def file_entries_def)
  have total: "sleeps (snd (postTweetToAllAccounts ?w ''hello'' two_accounts (Some default_config))) =
                 [300000, 30000, 300000]"
    by (simp add: postTweetToAllAccounts_def two_accounts_def run_simps calculateSmartDelay_def
        getTweetHistory_def base_delay_def slice_last_def saveTweetHistory_sleeps)
  show ?thesis
    using delay_for_account_just_posted
      [OF d, of "account_handle 1" ?w "''hello''" default_config "[account_handle 2]" "[]" ?w]
      d m run base total
    by (auto simp add: two_accounts_def account_handle_def getTweetHistory_def fresh_world_def
        file_entries_def)
qed

text \<open>
  The claim as it was stated fails for two accounts: the one call of the calculator is
  made with account 1, which was just posted to, while the next account is account 2.
\<close>

theorem delay_for_next_account_counterexample:
  "map fst (delay_calls (snd (postTweetToAllAccounts (fresh_world accepting Missing) ''hello''
                                two_accounts (Some default_config)))) = [1] \<and>
   map accountNumber (tl two_accounts) = [2]"
  by (simp add: postTweetToAllAccounts_def two_accounts_def run_simps calculateSmartDelay_def
      getTweetHistory_def saveTweetHistory_delay_calls)

section \<open>A record that quotes a template without beginning with it\<close>


section \<open>Inputs on which the code departs from its specification\<close>

text \<open>
  Claim C1. The attempt is claimed never to raise: every outcome, internal errors
  included, resolves to a result with \<open>success = false\<close>. With a config that is
  \<open>null\<close> or \<open>undefined\<close> and the environment variable unset, the read of
  \<open>config.simulationMode\<close> throws inside the outer \<open>try\<close>, the handler of the outer
  \<open>catch\<close> reads \<open>accountNumber\<close> out of its scope, and the promise rejects with a
  \<open>ReferenceError\<close>.
\<close>

theorem rejects_without_config:
  "postTweetWithClient (fresh_world accepting Missing) ''hello'' (Some (account_handle 1)) None 1 =
     (Inl (JsError ReferenceError None ''accountNumber is not defined''), fresh_world accepting Missing)"
  by (simp add: run_simps)

text \<open>
  Claim C3. Codes 429 and 88 are both claimed to take the rate-limit path. The message
  table of \<open>parseTwitterError\<close> names code 88 a rate limit, but with a retry left an
  error of code 88 is not waited for and not retried: the chain ends at once in the failed
  result, after one transport call and no sleep, where code 429 sleeps the configured 300
  seconds.
\<close>

theorem code_88_is_not_retried:
  "fst (parseTwitterError (JsError ApiError (Some 88) ''rejected'') 1) = ''Rate limit exceeded.'' \<and>
   postTweetWithClient (fresh_world (rejecting 88) Missing) ''hello'' (Some (account_handle 1))
       (Some default_config) 1 =
     (Inr (failed_result (account_handle 1) (JsError ApiError (Some 88) ''rejected'')),
      (fresh_world (rejecting 88) Missing)
        \<lparr>calls := [(1, ''hello'')], clock_reads := 1, sleeps := [],
         failed_file := Parsed [\<lparr>ft_timestamp = 0, ft_text = ''hello'', ft_accountNumber = 1\<rparr>]\<rparr>) \<and>
   sleeps (snd (postTweetWithClient (fresh_world (rejecting 429) Missing) ''hello''
                  (Some (account_handle 1)) (Some default_config) 1)) = [300000]"
  by (simp add: run_simps parseTwitterError_def code_explanation_def)

lemma two_line_file_lines: "file_lines two_line_file = [''a1,a2,a3,a4'', ''b1,b2,b3,b4'', '''']"
  by (simp add: file_lines_def two_line_file_def)

lemma two_line_file_skipped:
  "\<not> skipped ''a1,a2,a3,a4''" "\<not> skipped ''b1,b2,b3,b4''" "skipped ''''"
  by (simp_all add: skipped_def trim_def is_space_def)

text \<open>
  Claim C9. Lazy resolution is claimed to return the credential line that bulk loading
  numbers \<open>n\<close>. For a file of two credential lines that ends with a newline, bulk loading
  numbers the first line 1 and the second 2; lazy resolution subtracts the skipped lines of
  the whole file (here the empty last line) from the line number, so for number 1 it
  builds the handle from the second line, and for number 2 it finds nothing.
\<close>

theorem lazy_numbering_disagrees:
  "fst (readAccountsFromFile registry_world) =
     [\<lparr>cr_appKey = ''a1'', cr_appSecret = ''a2'', cr_accessToken = ''a3'', cr_accessSecret = ''a4'',
       cr_accountNumber = 1\<rparr>,
      \<lparr>cr_appKey = ''b1'', cr_appSecret = ''b2'', cr_accessToken = ''b3'', cr_accessSecret = ''b4'',
       cr_accountNumber = 2\<rparr>] \<and>
   fst (lazyLoadTwitterClient 1 [] registry_world) =
     Some \<lparr>ref = 0, appKey = ''b1'', appSecret = ''b2'', accessToken = ''b3'', accessSecret = ''b4'',
           accountNumber = 1\<rparr> \<and>
   fst (lazyLoadTwitterClient 2 [] registry_world) = None"
  by (simp add: readAccountsFromFile_def lazyLoadTwitterClient_def registry_world_def
      fresh_world_def two_line_file_lines two_line_file_skipped trim_def is_space_def Let_def)

text \<open>
  Claim C6. A queued post is claimed to leave the queue only when a replay of its own
  account and text succeeds. The sweep filters the list it read at its start and writes
  that list back, while a failed replay appends to the file through \<open>saveFailedTweet\<close>.
  Here the replay of the first post fails after a duplicate-content retry, which queues the
  time-stamped text; the replay of the second post succeeds, and the write-back drops the
  time-stamped post, of which no replay was ever made.
\<close>

theorem sweep_drops_requeued_post:
  "failed_file (snd (snd (snd (retry_tweets [post_a] 1 (Some (account_handle 1)) (Some default_config)
                                 ([post_a, post_b], [account_handle 1], sweep_world))))) =
     Parsed [post_a, post_b, post_a_stamped] \<and>
   fst (retryFailedTweets [account_handle 1] (Some default_config) sweep_world) = True \<and>
   failed_file (snd (snd (retryFailedTweets [account_handle 1] (Some default_config) sweep_world))) =
     Parsed [post_a] \<and>
   calls (snd (snd (retryFailedTweets [account_handle 1] (Some default_config) sweep_world))) =
     [(1, ''a''), (1, ''a [00:00:00]''), (1, ''b'')]"
  by (simp add: retryFailedTweets_def account_keys_def sweep_world_def post_a_def post_b_def
      post_a_stamped_def picky_def same_post_def run_simps)

section \<open>What the code does keep of these claims\<close>

text \<open>
  With a handle and a config that are objects, the attempt never rejects: for every text
  and every retry count it resolves to a result that carries the account number of the
  handle, and a result that is not a success carries its error.
\<close>

theorem attempt_resolves_for_objects:
  "\<exists>r. fst (postTweetWithClient w t (Some h) (Some c) n) = Inr r \<and>
       pr_accountNumber r = accountNumber h \<and> (success r \<or> error r \<noteq> None)"
  using ptc_resolves [of w t h c n] by blast

text \<open>
  With simulation off and a retry left, an attempt that ends in an error of code 429 sleeps
  the configured delay and is made again with the count lowered by one; an error of a
  code other than 429 and 187 (or of no code) ends the chain at once in the failed result,
  with the text saved to the Failure Queue.
\<close>

theorem error_codes_with_budget:
  assumes "\<not> simulating w (Some c)" and "try_post w t h = (Inl e, w1)" and "0 < n"
  shows "(err_code e = Some 429 \<longrightarrow>
            postTweetWithClient w t (Some h) (Some c) n =
              postTweetWithClient (sleep (waitTime c) w1) t (Some h) (Some c) (n - 1)) \<and>
         (err_code e \<noteq> Some 429 \<and> err_code e \<noteq> Some 187 \<longrightarrow>
            postTweetWithClient w t (Some h) (Some c) n =
              (Inr (failed_result h e), saveFailedTweet t (accountNumber h) w1))"
  using ptc_rate_limited [OF assms(1,2) _ assms(3)] ptc_failed [OF assms(1,2)]
  by simp

theorem error_codes_with_budget_witness:
  "(\<not> simulating (fresh_world (rejecting 429) Missing) (Some default_config) \<and>
    try_post (fresh_world (rejecting 429) Missing) ''hello'' (account_handle 1) =
      (Inl (JsError ApiError (Some 429) ''rejected''),
       (fresh_world (rejecting 429) Missing)\<lparr>calls := [(1, ''hello'')]\<rparr>) \<and>
    (0 :: int) < 1 \<and>
    postTweetWithClient (fresh_world (rejecting 429) Missing) ''hello'' (Some (account_handle 1))
        (Some default_config) 1 =
      postTweetWithClient
        (sleep 300000 ((fresh_world (rejecting 429) Missing)\<lparr>calls := [(1, ''hello'')]\<rparr>))
        ''hello'' (Some (account_handle 1)) (Some default_config) 0) \<and>
   (\<not> simulating (fresh_world (rejecting 403) Missing) (Some default_config) \<and>
    try_post (fresh_world (rejecting 403) Missing) ''hello'' (account_handle 1) =
      (Inl (JsError ApiError (Some 403) ''rejected''),
       (fresh_world (rejecting 403) Missing)\<lparr>calls := [(1, ''hello'')]\<rparr>) \<and>
    postTweetWithClient (fresh_world (rejecting 403) Missing) ''hello'' (Some (account_handle 1))
        (Some default_config) 1 =
      (Inr (failed_result (account_handle 1) (JsError ApiError (Some 403) ''rejected'')),
       saveFailedTweet ''hello'' 1
         ((fresh_world (rejecting 403) Missing)\<lparr>calls := [(1, ''hello'')]\<rparr>)))"
proof -
  have a: "\<not> simulating (fresh_world (rejecting code) Missing) (Some default_config)" for code
    by (simp add: simulating_def fresh_world_def default_config_def)
  have b: "try_post (fresh_world (rejecting code) Missing) ''hello'' (account_handle 1) =
     (Inl (JsError ApiError (Some code) ''rejected''),
      (fresh_world (rejecting code) Missing)\<lparr>calls := [(1, ''hello'')]\<rparr>)" for code
    by (simp add: try_post_def fresh_world_def rejecting_def account_handle_def Let_def)
  have c: "(0 :: int) < 1" by simp
  have d: "waitTime default_config = 300000" by (simp add: waitTime_def default_config_def)
  show ?thesis
    using error_codes_with_budget [OF a [of 429] b [of 429] c]
      error_codes_with_budget [OF a [of 403] b [of 403] c] a b d
    by (simp add: account_handle_def)
qed

lemma ptc_queue_grows:
  "\<exists>extra. file_entries (failed_file (snd (postTweetWithClient w t ho co n))) =
            file_entries (failed_file w) @ extra"
proof (induction rule: ptc_chain_induct [where P = "\<lambda>w t ho co n r.
    \<exists>extra. file_entries (failed_file (snd r)) = file_entries (failed_file w) @ extra"])
  case (posted w t h c n i w1)
  then show ?case using try_post_grows(4) [of w t h] by simp
next
  case (rate_limited w t h c n e w1 r)
  then show ?case using try_post_grows(4) [of w t h] by simp
next
  case (duplicate w t h c n e w1 r)
  then show ?case using try_post_grows(4) [of w t h] by simp
next
  case (failed w t h c n e w1)
  then show ?case using try_post_grows(4) [of w t h] by (simp add: file_entries_def)
qed (simp_all add: simulated_result_def)

text \<open>
  One replay of the sweep, for an attempt that resolves. After a success the variable
  \<open>failedTweets\<close> is what it was without the posts of the same account and text, and the
  file is written with it. After a failure the variable is unchanged and every post that
  was in the file before the replay is still in it.
\<close>

theorem replay_step:
  assumes "postTweetWithClient w (ft_text tweet) (Some h) cfg 1 = (Inr r, w1)"
  shows "(success r \<longrightarrow>
            retry_tweets [tweet] accNo (Some h) cfg (failedTweets, twitterClients, w) =
              (None, (filter (\<lambda>t. \<not> same_post t tweet) failedTweets, twitterClients,
                      sleep 5000 (w1\<lparr>failed_file :=
                         Parsed (filter (\<lambda>t. \<not> same_post t tweet) failedTweets)\<rparr>)))) \<and>
         (\<not> success r \<longrightarrow>
            retry_tweets [tweet] accNo (Some h) cfg (failedTweets, twitterClients, w) =
              (None, (failedTweets, twitterClients, sleep 5000 w1)) \<and>
            set (file_entries (failed_file w)) \<subseteq> set (file_entries (failed_file (sleep 5000 w1))))"
proof -
  obtain extra where "file_entries (failed_file w1) = file_entries (failed_file w) @ extra"
    using ptc_queue_grows [of w "ft_text tweet" "Some h" cfg 1] assms by auto
  then show ?thesis using assms by (auto simp add: Let_def)
qed

theorem replay_step_witness:
  "(postTweetWithClient sweep_world (ft_text post_b) (Some (account_handle 1)) (Some default_config) 1 =
      (Inr (posted_result (account_handle 1) ''1001''), sweep_world\<lparr>calls := [(1, ''b'')]\<rparr>) \<and>
    success (posted_result (account_handle 1) ''1001'') \<and>
    retry_tweets [post_b] 1 (Some (account_handle 1)) (Some default_config)
        ([post_a, post_b], [account_handle 1], sweep_world) =
      (None, ([post_a], [account_handle 1],
              sleep 5000 (sweep_world\<lparr>calls := [(1, ''b'')], failed_file := Parsed [post_a]\<rparr>)))) \<and>
   (postTweetWithClient (fresh_world (rejecting 403) (Parsed [post_a])) (ft_text post_a)
        (Some (account_handle 1)) (Some default_config) 1 =
      (Inr (failed_result (account_handle 1) (JsError ApiError (Some 403) ''rejected'')),
       saveFailedTweet ''a'' 1
         ((fresh_world (rejecting 403) (Parsed [post_a]))\<lparr>calls := [(1, ''a'')]\<rparr>)) \<and>
    \<not> success (failed_result (account_handle 1) (JsError ApiError (Some 403) ''rejected'')) \<and>
    retry_tweets [post_a] 1 (Some (account_handle 1)) (Some default_config)
        ([post_a], [account_handle 1], fresh_world (rejecting 403) (Parsed [post_a])) =
      (None, ([post_a], [account_handle 1],
              sleep 5000 (saveFailedTweet ''a'' 1
                ((fresh_world (rejecting 403) (Parsed [post_a]))\<lparr>calls := [(1, ''a'')]\<rparr>)))))"
proof -
  have a: "postTweetWithClient sweep_world (ft_text post_b) (Some (account_handle 1))
             (Some default_config) 1 =
           (Inr (posted_result (account_handle 1) ''1001''), sweep_world\<lparr>calls := [(1, ''b'')]\<rparr>)"
    by (simp add: run_simps sweep_world_def post_b_def post_a_def picky_def)
  have b: "success (posted_result (account_handle 1) ''1001'')" by (simp add: posted_result_def)
  have c: "filter (\<lambda>t. \<not> same_post t post_b) [post_a, post_b] = [post_a]"
    by (simp add: same_post_def post_a_def post_b_def)
  have d: "postTweetWithClient (fresh_world (rejecting 403) (Parsed [post_a])) (ft_text post_a)
        (Some (account_handle 1)) (Some default_config) 1 =
      (Inr (failed_result (account_handle 1) (JsError ApiError (Some 403) ''rejected'')),
       saveFailedTweet ''a'' 1
         ((fresh_world (rejecting 403) (Parsed [post_a]))\<lparr>calls := [(1, ''a'')]\<rparr>))"
    by (simp add: run_simps post_a_def)
  have e: "\<not> success (failed_result (account_handle 1) (JsError ApiError (Some 403) ''rejected''))"
    by (simp add: failed_result_def)
  show ?thesis
    using replay_step [OF a, of 1 "[post_a, post_b]" "[account_handle 1]"]
      replay_step [OF d, of 1 "[post_a]" "[account_handle 1]"] a b c d e
    by simp
qed

end
